theory Spec2Isabelle
  imports Complex_Main "HOL-Library.Sublist" "HOL-Library.AList"
begin

section \<open>Conventions\<close>

text \<open>
  The Python sources compute with IEEE doubles (numpy \<open>float64\<close> and Python \<open>float\<close>).
  The embedding reads every finite double as the real number it denotes and every
  arithmetic operation as the exact operation on reals, so rounding is not modelled.
  The one place where the sources can leave the finite doubles, a numpy division by
  zero, is modelled explicitly by \<open>np_float\<close> below.

  Exceptions are values: a function that can raise returns \<open>py_error + 'a\<close>.
\<close>

datatype py_error =
    ValueError | TypeError | AttributeError | RuntimeError | OSError
  | JSONDecodeError | RecursionError

type_synonym vec3 = "real \<times> real \<times> real"

text \<open>
  A \<open>trimesh.Trimesh\<close>. The library derives \<open>face_normals\<close> (one unit normal per
  face, oriented by the winding of the face) and \<open>bounds\<close> (componentwise minimum and
  maximum of the referenced vertices, \<open>None\<close> when there is none) from the vertices and
  faces; the library is not part of the repository, so both are carried as fields.
\<close>

record mesh =
  vertices :: "vec3 list"
  faces :: "(nat \<times> nat \<times> nat) list"
  face_normals :: "vec3 list"
  bounds :: "(vec3 \<times> vec3) option"

section \<open>Overhang detection (feature\_extractor.py)\<close>

fun dot :: "vec3 \<Rightarrow> vec3 \<Rightarrow> real" where
  "dot (a, b, c) (x, y, z) = a * x + b * y + c * z"

definition clip :: "real \<Rightarrow> real \<Rightarrow> real \<Rightarrow> real" where
  "clip a a_min a_max = min a_max (max a a_min)"

definition degrees :: "real \<Rightarrow> real" where
  "degrees x = x * (180 / pi)"

definition count_nonzero :: "('a \<Rightarrow> bool) \<Rightarrow> 'a list \<Rightarrow> nat" where
  "count_nonzero p xs = length (filter p xs)"

record overhang_features =
  has_overhangs :: bool
  overhang_percentage :: real
  severe_overhang_percentage :: real
  extreme_overhang_percentage :: real
  overhang_face_count :: nat
  needs_supports :: bool
  recommend_tree_support :: bool
  max_overhang_angle :: real
  support_complexity :: string

definition face_angles_deg :: "mesh \<Rightarrow> real list" where
  "face_angles_deg m =
     (let z_axis = (0, 0, - 1)
      in map (\<lambda>n. degrees (arccos (clip (dot n z_axis) (- 1) 1))) (face_normals m))"

definition percentage :: "nat \<Rightarrow> nat \<Rightarrow> real" where
  "percentage k total_faces =
     (if total_faces > 0 then real k / real total_faces * 100 else 0)"

text \<open>
  \<open>FeatureExtractor._detect_overhangs\<close>, with \<open>self.overhang_threshold\<close> as the first
  argument. \<open>np.max\<close> of an empty array raises \<open>ValueError\<close>, so a mesh without faces
  has no result.
\<close>

definition detect_overhangs :: "real \<Rightarrow> mesh \<Rightarrow> py_error + overhang_features" where
  "detect_overhangs overhang_threshold m =
     (let angles_deg = face_angles_deg m;
          overhang_faces = count_nonzero (\<lambda>a. a > overhang_threshold) angles_deg;
          severe_overhang_faces = count_nonzero (\<lambda>a. a > 60) angles_deg;
          extreme_overhang_faces = count_nonzero (\<lambda>a. a > 75) angles_deg;
          total_faces = length (faces m);
          overhang_pct = percentage overhang_faces total_faces;
          severe_pct = percentage severe_overhang_faces total_faces;
          extreme_pct = percentage extreme_overhang_faces total_faces;
          needs_tree_support =
            (severe_pct > 5 \<or> (overhang_pct > 15 \<and> extreme_pct > 2) \<or> overhang_pct > 20)
      in if angles_deg = [] then Inl ValueError
         else Inr \<lparr> has_overhangs = (overhang_pct > 5),
                    overhang_percentage = overhang_pct,
                    severe_overhang_percentage = severe_pct,
                    extreme_overhang_percentage = extreme_pct,
                    overhang_face_count = overhang_faces,
                    needs_supports = (overhang_pct > 10),
                    recommend_tree_support = needs_tree_support,
                    max_overhang_angle = Max (set angles_deg),
                    support_complexity =
                      (if needs_tree_support then ''high''
                       else if overhang_pct > 10 then ''medium'' else ''low'') \<rparr>)"

text \<open>Test meshes: one triangle facing straight down, and a flat square (two triangles)
  facing straight up.\<close>

definition down_triangle :: mesh where
  "down_triangle =
     \<lparr> vertices = [(0, 0, 0), (0, 1, 0), (1, 0, 0)],
       faces = [(0, 1, 2)],
       face_normals = [(0, 0, - 1)],
       bounds = Some ((0, 0, 0), (1, 1, 0)) \<rparr>"

definition up_square :: mesh where
  "up_square =
     \<lparr> vertices = [(0, 0, 0), (1, 0, 0), (1, 1, 0), (0, 1, 0)],
       faces = [(0, 1, 2), (0, 2, 3)],
       face_normals = [(0, 0, 1), (0, 0, 1)],
       bounds = Some ((0, 0, 0), (1, 1, 0)) \<rparr>"

section \<open>Build-plate placement (profile\_generator.py)\<close>

text \<open>
  A numpy \<open>float64\<close> result. Dividing by a zero \<open>float64\<close> does not raise: numpy
  returns an infinity or NaN with a \<open>RuntimeWarning\<close>. The extents of a bounding box
  are differences \<open>max - min\<close>, so a zero extent is \<open>+0.0\<close>.
\<close>

datatype np_float = Fin real | PosInf | NegInf | NaN

definition np_div :: "real \<Rightarrow> real \<Rightarrow> np_float" where
  "np_div a b =
     (if b \<noteq> 0 then Fin (a / b)
      else if a > 0 then PosInf else if a < 0 then NegInf else NaN)"

definition np_mul :: "real \<Rightarrow> np_float \<Rightarrow> np_float" where
  "np_mul a x =
     (case x of
        Fin b \<Rightarrow> Fin (a * b)
      | PosInf \<Rightarrow> (if a > 0 then PosInf else if a < 0 then NegInf else NaN)
      | NegInf \<Rightarrow> (if a > 0 then NegInf else if a < 0 then PosInf else NaN)
      | NaN \<Rightarrow> NaN)"

text \<open>The comparison \<open>x > b\<close> of IEEE arithmetic: false on NaN.\<close>

fun np_gt :: "np_float \<Rightarrow> real \<Rightarrow> bool" where
  "np_gt (Fin a) b = (a > b)"
| "np_gt PosInf b = True"
| "np_gt NegInf b = False"
| "np_gt NaN b = False"

text \<open>
  The number that \<open>f"{scale:.6f}".rstrip('0').rstrip('.')\<close> denotes: the value rounded to
  six decimals, ties to even; stripping trailing zeros does not change it. The source
  writes \<open>"1"\<close> when \<open>scale == 1.0\<close>, and an infinity is written as it is.
\<close>

definition round_half_even :: "real \<Rightarrow> int" where
  "round_half_even y =
     (let f = \<lfloor>y\<rfloor>; d = y - of_int f
      in if d < 1 / 2 then f else if d > 1 / 2 then f + 1
         else if even f then f else f + 1)"

definition format_6f :: "real \<Rightarrow> real" where
  "format_6f s = of_int (round_half_even (s * 1000000)) / 1000000"

fun scale_str :: "np_float \<Rightarrow> np_float" where
  "scale_str (Fin s) = (if s = 1 then Fin 1 else Fin (format_6f s))"
| "scale_str x = x"

text \<open>
  What \<open>ProfileGenerator._generate_3mf_model_xml\<close> computes: the vertices and triangles
  written into the mesh element, and the numbers of the transform matrix
  \<open>"s 0 0 0 s 0 0 0 s offset_x offset_y offset_z"\<close>. \<open>scale\<close> is the local variable,
  \<open>matrix_scale\<close> the number written for it in the matrix string.
\<close>

record placement =
  norm_vertices :: "vec3 list"
  triangles :: "(nat \<times> nat \<times> nat) list"
  scale :: np_float
  matrix_scale :: np_float
  offset_x :: real
  offset_y :: real
  offset_z :: np_float

fun center_point :: "vec3 \<Rightarrow> vec3 \<Rightarrow> vec3" where
  "center_point (center_x, center_y, center_z) (vx, vy, vz) =
     (vx - center_x, vy - center_y, vz - center_z)"

text \<open>\<open>mesh.bounds\<close> is \<open>None\<close> for a mesh without referenced vertices, and indexing it
  raises \<open>TypeError\<close>. The margin of 5 mm on each side is the constant 10 of the source.\<close>

definition generate_3mf_model_xml :: "mesh \<Rightarrow> real \<Rightarrow> py_error + placement" where
  "generate_3mf_model_xml m build_plate_size =
     (case bounds m of
        None \<Rightarrow> Inl TypeError
      | Some ((x0, y0, z0), (x1, y1, z1)) \<Rightarrow>
          (let center_x = (x0 + x1) / 2;
               center_y = (y0 + y1) / 2;
               center_z = z0;
               vertices_xml = map (center_point (center_x, center_y, center_z)) (vertices m);
               triangles_xml = faces m;
               width = x1 - x0;
               depth = y1 - y0;
               max_dimension = max width depth;
               safe_build_size = build_plate_size - 10;
               scale = (if max_dimension > safe_build_size
                        then np_div safe_build_size max_dimension else Fin 1);
               offset_x = build_plate_size / 2;
               offset_y = build_plate_size / 2;
               offset_z = np_mul ((z1 - z0) / 2) scale
           in Inr \<lparr> norm_vertices = vertices_xml, triangles = triangles_xml,
                      scale = scale, matrix_scale = scale_str scale,
                      offset_x = offset_x, offset_y = offset_y, offset_z = offset_z \<rparr>))"

text \<open>
  The sibling \<open>ProfileGenerator._calculate_build_plate_transform\<close> (no caller in the
  repository), which works on the mesh as loaded, not centered, and returns
  \<open>(scale_factor, offset_x, offset_y, offset_z)\<close>.
\<close>

fun np_sub :: "np_float \<Rightarrow> np_float \<Rightarrow> np_float" where
  "np_sub (Fin a) (Fin b) = Fin (a - b)"
| "np_sub NaN y = NaN"
| "np_sub x NaN = NaN"
| "np_sub PosInf PosInf = NaN"
| "np_sub NegInf NegInf = NaN"
| "np_sub PosInf y = PosInf"
| "np_sub NegInf y = NegInf"
| "np_sub (Fin a) PosInf = NegInf"
| "np_sub (Fin a) NegInf = PosInf"

definition calculate_build_plate_transform ::
  "mesh \<Rightarrow> real \<Rightarrow> py_error + np_float \<times> np_float \<times> np_float \<times> np_float" where
  "calculate_build_plate_transform m build_plate_size =
     (case bounds m of
        None \<Rightarrow> Inl TypeError
      | Some ((x0, y0, z0), (x1, y1, z1)) \<Rightarrow>
          (let width = x1 - x0;
               depth = y1 - y0;
               max_dimension = max width depth;
               safe_build_size = build_plate_size - 10;
               scale_factor = (if max_dimension > safe_build_size
                               then np_div safe_build_size max_dimension else Fin 1);
               scaled_width = np_mul width scale_factor;
               scaled_depth = np_mul depth scale_factor;
               offset_x = np_sub (np_sub (Fin (build_plate_size / 2)) (np_mul (1 / 2) scaled_width))
                                 (np_mul x0 scale_factor);
               offset_y = np_sub (np_sub (Fin (build_plate_size / 2)) (np_mul (1 / 2) scaled_depth))
                                 (np_mul y0 scale_factor);
               offset_z = np_sub (Fin 0) (np_mul z0 scale_factor)
           in Inr (scale_factor, offset_x, offset_y, offset_z)))"

text \<open>
  How a consumer reads the build item: the matrix \<open>s 0 0 0 s 0 0 0 s tx ty tz\<close> sends a
  stored point \<open>v\<close> to \<open>s * v + (tx, ty, tz)\<close>. The function returns the matrix as a
  string, so the transform a consumer applies has the six-decimal scale:
  \<open>place_rendered\<close> is the position of a stored point under the returned transform,
  defined when the transform is finite, and \<open>placed_vertices\<close> places every stored
  vertex of a mesh. \<open>place\<close> is the same with the scale before it is written.
\<close>

fun apply_transform :: "real \<Rightarrow> vec3 \<Rightarrow> vec3 \<Rightarrow> vec3" where
  "apply_transform s (tx, ty, tz) (x, y, z) = (s * x + tx, s * y + ty, s * z + tz)"

definition place :: "placement \<Rightarrow> vec3 \<Rightarrow> vec3 option" where
  "place p v =
     (case (scale p, offset_z p) of
        (Fin s, Fin oz) \<Rightarrow> Some (apply_transform s (offset_x p, offset_y p, oz) v)
      | _ \<Rightarrow> None)"

definition place_rendered :: "placement \<Rightarrow> vec3 \<Rightarrow> vec3 option" where
  "place_rendered p v =
     (case (matrix_scale p, offset_z p) of
        (Fin s, Fin oz) \<Rightarrow> Some (apply_transform s (offset_x p, offset_y p, oz) v)
      | _ \<Rightarrow> None)"

definition placed_vertices :: "mesh \<Rightarrow> real \<Rightarrow> py_error + vec3 option list" where
  "placed_vertices m build_plate_size =
     (case generate_3mf_model_xml m build_plate_size of
        Inl e \<Rightarrow> Inl e
      | Inr p \<Rightarrow> Inr (map (place_rendered p) (norm_vertices p)))"

text \<open>Test meshes: the cube of side 10 standing on the plane \<open>z = 0\<close>, a flat sheet
  of 300 by 20, and a flat strip 300 km long and 1 mm wide.\<close>

definition cube10 :: mesh where
  "cube10 =
     \<lparr> vertices = [(0, 0, 0), (10, 0, 0), (10, 10, 0), (0, 10, 0),
                   (0, 0, 10), (10, 0, 10), (10, 10, 10), (0, 10, 10)],
       faces = [(0, 2, 1), (0, 3, 2), (4, 5, 6), (4, 6, 7), (0, 1, 5), (0, 5, 4),
                (1, 2, 6), (1, 6, 5), (2, 3, 7), (2, 7, 6), (3, 0, 4), (3, 4, 7)],
       face_normals = [(0, 0, - 1), (0, 0, - 1), (0, 0, 1), (0, 0, 1), (0, - 1, 0), (0, - 1, 0),
                       (1, 0, 0), (1, 0, 0), (0, 1, 0), (0, 1, 0), (- 1, 0, 0), (- 1, 0, 0)],
       bounds = Some ((0, 0, 0), (10, 10, 10)) \<rparr>"

definition plank300 :: mesh where
  "plank300 =
     \<lparr> vertices = [(0, 0, 0), (300, 0, 0), (300, 20, 0), (0, 20, 0)],
       faces = [(0, 1, 2), (0, 2, 3)],
       face_normals = [(0, 0, 1), (0, 0, 1)],
       bounds = Some ((0, 0, 0), (300, 20, 0)) \<rparr>"

definition long_strip :: mesh where
  "long_strip =
     \<lparr> vertices = [(0, 0, 0), (300000000, 0, 0), (300000000, 1, 0), (0, 1, 0)],
       faces = [(0, 1, 2), (0, 2, 3)],
       face_normals = [(0, 0, 1), (0, 0, 1)],
       bounds = Some ((0, 0, 0), (300000000, 1, 0)) \<rparr>"

section \<open>Python values\<close>

text \<open>
  The values that cross the JSON boundary: the result of \<open>json.loads\<close>, the feature
  and profile dictionaries, the settings documents. A \<open>dict\<close> is an association list
  in insertion order with one entry per key; a \<open>str\<close> is the list of its characters
  (code points up to 255); a \<open>float\<close> is finite.
\<close>

datatype json =
    JNull
  | JBool bool
  | JInt int
  | JFloat real
  | JStr string
  | JList "json list"
  | JDict "(string \<times> json) list"

type_synonym py_dict = "(string \<times> json) list"

text \<open>\<open>d.get(k, default)\<close>, \<open>d[k] = v\<close> and \<open>d.update(other)\<close>.\<close>

definition dict_get :: "py_dict \<Rightarrow> string \<Rightarrow> json \<Rightarrow> json" where
  "dict_get d k dflt = (case map_of d k of None \<Rightarrow> dflt | Some v \<Rightarrow> v)"

definition dict_set :: "py_dict \<Rightarrow> string \<Rightarrow> json \<Rightarrow> py_dict" where
  "dict_set d k v = AList.update k v d"

definition dict_update :: "py_dict \<Rightarrow> py_dict \<Rightarrow> py_dict" where
  "dict_update d other = fold (\<lambda>(k, v) acc. dict_set acc k v) other d"

text \<open>\<open>x.get(k, default)\<close> on a value that need not be a dict: only a dict has the
  method, anything else raises \<open>AttributeError\<close>.\<close>

definition attr_get :: "json \<Rightarrow> string \<Rightarrow> json \<Rightarrow> py_error + json" where
  "attr_get x k dflt =
     (case x of JDict d \<Rightarrow> Inr (dict_get d k dflt) | _ \<Rightarrow> Inl AttributeError)"

text \<open>Truth value of a Python object in a condition.\<close>

fun truthy :: "json \<Rightarrow> bool" where
  "truthy JNull = False"
| "truthy (JBool b) = b"
| "truthy (JInt i) = (i \<noteq> 0)"
| "truthy (JFloat r) = (r \<noteq> 0)"
| "truthy (JStr s) = (s \<noteq> [])"
| "truthy (JList xs) = (xs \<noteq> [])"
| "truthy (JDict d) = (d \<noteq> [])"

text \<open>
  \<open>str(v)\<close>. The text of a number, a list or a dict is produced by the interpreter
  (shortest round-trip digits for a float); it is taken as the parameter \<open>repr\<close>.
\<close>

definition py_str :: "(json \<Rightarrow> string) \<Rightarrow> json \<Rightarrow> string" where
  "py_str repr v =
     (case v of
        JStr s \<Rightarrow> s
      | JNull \<Rightarrow> ''None''
      | JBool b \<Rightarrow> (if b then ''True'' else ''False'')
      | _ \<Rightarrow> repr v)"

subsection \<open>String methods\<close>

definition is_space :: "char \<Rightarrow> bool" where
  "is_space c = (of_char c \<in> {9, 10, 11, 12, 13, 28, 29, 30, 31, 32, 133, 160 :: nat})"

definition py_strip :: "string \<Rightarrow> string" where
  "py_strip s = rev (dropWhile is_space (rev (dropWhile is_space s)))"

definition py_lower_char :: "char \<Rightarrow> char" where
  "py_lower_char c =
     (let n = of_char c :: nat
      in if (65 \<le> n \<and> n \<le> 90) \<or> (192 \<le> n \<and> n \<le> 222 \<and> n \<noteq> 215)
         then char_of (n + 32) else c)"

definition py_lower :: "string \<Rightarrow> string" where
  "py_lower s = map py_lower_char s"

text \<open>\<open>s.find(sub)\<close> and \<open>s.rfind(sub)\<close>: the first and the last index at which
  \<open>sub\<close> starts, \<open>-1\<close> when there is none; \<open>sub in s\<close>.\<close>

fun find_from :: "string \<Rightarrow> string \<Rightarrow> int \<Rightarrow> int" where
  "find_from sub [] i = (if sub = [] then i else - 1)"
| "find_from sub (c # cs) i =
     (if prefix sub (c # cs) then i else find_from sub cs (i + 1))"

fun rfind_from :: "string \<Rightarrow> string \<Rightarrow> int \<Rightarrow> int" where
  "rfind_from sub [] i = (if sub = [] then i else - 1)"
| "rfind_from sub (c # cs) i =
     (let j = rfind_from sub cs (i + 1)
      in if j \<noteq> - 1 then j else if prefix sub (c # cs) then i else - 1)"

definition py_find :: "string \<Rightarrow> string \<Rightarrow> int" where
  "py_find s sub = find_from sub s 0"

definition py_rfind :: "string \<Rightarrow> string \<Rightarrow> int" where
  "py_rfind s sub = rfind_from sub s 0"

definition py_contains :: "string \<Rightarrow> string \<Rightarrow> bool" where
  "py_contains sub s = (py_find s sub \<noteq> - 1)"

text \<open>\<open>s[start:end]\<close>, with negative indices counted from the end and both clamped.\<close>

definition slice_index :: "int \<Rightarrow> nat \<Rightarrow> nat" where
  "slice_index i n = (if i < 0 then nat (max 0 (int n + i)) else min (nat i) n)"

definition py_slice :: "string \<Rightarrow> int \<Rightarrow> int \<Rightarrow> string" where
  "py_slice s start end =
     (let a = slice_index start (length s); b = slice_index end (length s)
      in take (b - a) (drop a s))"

section \<open>Fallback analysis (gemini\_agent.py)\<close>

text \<open>The three backquotes of a Markdown code fence.\<close>

definition fence :: string where
  "fence = [CHR 0x60, CHR 0x60, CHR 0x60]"

text \<open>The first half of \<open>GeminiAgent._parse_analysis_response\<close>: the text handed to
  \<open>json.loads\<close>.\<close>

definition extract_json_text :: "string \<Rightarrow> string" where
  "extract_json_text response_text0 =
     (let response_text = py_strip response_text0
      in if py_contains (fence @ ''json'') response_text then
           (let start = py_find response_text (fence @ ''json'') + 7;
                end = py_rfind response_text fence
            in py_strip (py_slice response_text start end))
         else if py_contains fence response_text then
           (let start = py_find response_text fence + 3;
                end = py_rfind response_text fence
            in py_strip (py_slice response_text start end))
         else response_text)"

text \<open>\<open>GeminiAgent._generate_fallback_analysis\<close>.\<close>

definition generate_fallback_analysis :: "py_dict \<Rightarrow> string \<Rightarrow> py_error + json" where
  "generate_fallback_analysis features raw_response =
     (let dims = dict_get features ''dimensions'' (JDict []);
          overhangs = dict_get features ''overhangs'' (JDict []);
          complexity = dict_get features ''complexity'' (JDict [])
      in case attr_get complexity ''detail_level'' (JStr ''medium'') of
           Inl e \<Rightarrow> Inl e
         | Inr detail_level \<Rightarrow>
        (case attr_get overhangs ''needs_supports'' (JBool False) of
           Inl e \<Rightarrow> Inl e
         | Inr needs \<Rightarrow>
        (case attr_get overhangs ''recommend_tree_support'' (JBool False) of
           Inl e \<Rightarrow> Inl e
         | Inr recommend_tree \<Rightarrow>
           Inr (JDict
             [(''analysis'', JDict
                [(''model_type'', JStr ''unknown''),
                 (''complexity_assessment'', detail_level),
                 (''print_challenges'', JList [JStr ''automatic_analysis_failed'']),
                 (''key_considerations'', JList [JStr ''using_fallback_profile'']),
                 (''raw_ai_response'', JStr (py_slice raw_response 0 500))]),
              (''profile'', JDict
                [(''layer_height'', JFloat (2 / 10)),
                 (''first_layer_height'', JFloat (2 / 10)),
                 (''perimeters'', JInt 3),
                 (''top_solid_layers'', JInt 5),
                 (''bottom_solid_layers'', JInt 5),
                 (''infill_percentage'', JInt 20),
                 (''infill_pattern'', JStr ''cubic''),
                 (''support_material'', needs),
                 (''support_type'',
                    JStr (if truthy recommend_tree then ''tree_auto'' else ''normal'')),
                 (''support_style'',
                    JStr (if truthy recommend_tree then ''tree'' else ''default'')),
                 (''tree_support_branch_angle'', JInt 45),
                 (''tree_support_branch_distance'', JFloat (25 / 10)),
                 (''support_angle_threshold'', JInt 45),
                 (''brim_width'', JInt 0),
                 (''brim_type'', JStr ''no_brim''),
                 (''print_speed'', JInt 60),
                 (''first_layer_speed'', JInt 20),
                 (''perimeter_speed'', JInt 45),
                 (''infill_speed'', JInt 80),
                 (''travel_speed'', JInt 150),
                 (''retraction_length'', JFloat (8 / 10)),
                 (''retraction_speed'', JInt 35),
                 (''temperature'', JInt 210),
                 (''bed_temperature'', JInt 60),
                 (''cooling_fan_speed'', JInt 100),
                 (''first_layer_fan_speed'', JInt 0)]),
              (''reasoning'', JStr
                 ''Fallback profile generated due to AI parsing error. Using safe default parameters.''),
              (''material_suggestion'', JStr ''PLA''),
              (''estimated_quality'', JStr ''standard''),
              (''estimated_print_time_factor'', JFloat 1),
              (''model_hash'', dict_get features ''model_hash'' (JStr '''')),
              (''source'', JStr ''fallback'')]))))"

text \<open>
  \<open>GeminiAgent._parse_analysis_response\<close>. \<open>json_loads\<close> stands for \<open>json.loads\<close>:
  it returns the parsed value, or raises \<open>JSONDecodeError\<close> on text that is not JSON, or
  raises something else where the parser gives up for another reason (\<open>RecursionError\<close>
  on deeply nested brackets, \<open>ValueError\<close> on a number with too many digits). The
  handler is \<open>except json.JSONDecodeError\<close>: only that exception leads to the fallback,
  any other one leaves the function. Item assignment on a parsed value that is not a
  dict raises \<open>TypeError\<close>.
\<close>

definition parse_analysis_response ::
  "(string \<Rightarrow> py_error + json) \<Rightarrow> string \<Rightarrow> py_dict \<Rightarrow> py_error + json" where
  "parse_analysis_response json_loads response_text0 features =
     (let response_text = extract_json_text response_text0
      in case json_loads response_text of
           Inr analysis \<Rightarrow>
             (case analysis of
                JDict d \<Rightarrow>
                  Inr (JDict (dict_set
                         (dict_set d ''model_hash'' (dict_get features ''model_hash'' (JStr '''')))
                         ''source'' (JStr ''gemini_ai'')))
              | _ \<Rightarrow> Inl TypeError)
         | Inl e \<Rightarrow>
             if e = JSONDecodeError then generate_fallback_analysis features response_text
             else Inl e)"

text \<open>
  \<open>GeminiAgent.analyze_features\<close>, from the reply of the model on: \<open>reply\<close> is the
  outcome of \<open>self.model.generate_content(prompt)\<close> and of reading its text. Every
  exception below it is re-raised as \<open>RuntimeError\<close>.
\<close>

definition analyze_features ::
  "(string \<Rightarrow> py_error + json) \<Rightarrow> py_error + string \<Rightarrow> py_dict \<Rightarrow> py_error + json" where
  "analyze_features json_loads reply features =
     (case reply of
        Inl e \<Rightarrow> Inl RuntimeError
      | Inr text \<Rightarrow>
          (case parse_analysis_response json_loads text features of
             Inl e \<Rightarrow> Inl RuntimeError
           | Inr analysis \<Rightarrow> Inr analysis))"




definition no_json :: "string \<Rightarrow> py_error + json" where
  "no_json text = Inl JSONDecodeError"



section \<open>Elegoo project settings (profile\_generator.py)\<close>

text \<open>\<open>str(profile.get(k, default))\<close>, with the text of the default written out.\<close>

definition str_get :: "(json \<Rightarrow> string) \<Rightarrow> py_dict \<Rightarrow> string \<Rightarrow> string \<Rightarrow> string" where
  "str_get repr profile k default_text =
     (case map_of profile k of None \<Rightarrow> default_text | Some v \<Rightarrow> py_str repr v)"

text \<open>
  \<open>profile.get('support_style') == 'tree' or
  'tree' in str(profile.get('support_type', '')).lower()\<close>
\<close>

definition is_tree :: "(json \<Rightarrow> string) \<Rightarrow> py_dict \<Rightarrow> bool" where
  "is_tree repr profile =
     (map_of profile ''support_style'' = Some (JStr ''tree'')
      \<or> py_contains ''tree'' (py_lower (str_get repr profile ''support_type'' '''')))"

definition ai_settings :: "(json \<Rightarrow> string) \<Rightarrow> py_dict \<Rightarrow> string \<Rightarrow> py_dict" where
  "ai_settings repr profile material =
     [(''layer_height'', JStr (str_get repr profile ''layer_height'' ''0.2'')),
      (''initial_layer_height'', JStr (str_get repr profile ''first_layer_height'' ''0.2'')),
      (''wall_loops'', JStr (str_get repr profile ''perimeters'' ''3'')),
      (''top_shell_layers'', JStr (str_get repr profile ''top_solid_layers'' ''5'')),
      (''bottom_shell_layers'', JStr (str_get repr profile ''bottom_solid_layers'' ''5'')),
      (''sparse_infill_density'', JStr (str_get repr profile ''infill_percentage'' ''20'' @ ''%'')),
      (''sparse_infill_pattern'', dict_get profile ''infill_pattern'' (JStr ''cubic'')),
      (''enable_support'',
         JStr (if truthy (dict_get profile ''support_material'' (JBool False)) then ''1'' else ''0'')),
      (''support_type'', JStr (if is_tree repr profile then ''tree(auto)'' else ''normal(auto)'')),
      (''support_style'', JStr ''default''),
      (''support_threshold_angle'', JStr (str_get repr profile ''support_angle_threshold'' ''45'')),
      (''brim_type'', JStr ''no_brim''),
      (''default_speed'', JStr (str_get repr profile ''print_speed'' ''60'')),
      (''initial_layer_speed'', JStr (str_get repr profile ''first_layer_speed'' ''20'')),
      (''outer_wall_speed'', JStr (str_get repr profile ''perimeter_speed'' ''45'')),
      (''inner_wall_speed'', JStr (str_get repr profile ''perimeter_speed'' ''45'')),
      (''sparse_infill_speed'', JStr (str_get repr profile ''infill_speed'' ''80'')),
      (''travel_speed'', JStr (str_get repr profile ''travel_speed'' ''150'')),
      (''retraction_length'', JList [JStr (str_get repr profile ''retraction_length'' ''0.8'')]),
      (''retraction_speed'', JList [JStr (str_get repr profile ''retraction_speed'' ''35'')]),
      (''nozzle_temperature'', JList [JStr (str_get repr profile ''temperature'' ''210'')]),
      (''hot_plate_temp'', JList [JStr (str_get repr profile ''bed_temperature'' ''60'')]),
      (''hot_plate_temp_initial_layer'',
         JList [JStr (str_get repr profile ''bed_temperature'' ''60'')]),
      (''fan_max_speed'', JList [JStr (str_get repr profile ''cooling_fan_speed'' ''100'')]),
      (''fan_min_speed'', JList [JStr (str_get repr profile ''first_layer_fan_speed'' ''0'')]),
      (''filament_type'', JList [JStr material]),
      (''filament_settings_id'', JList [JStr (material @ '' @ECC'')]),
      (''different_settings_to_system'',
         JList [JStr (''brim_type;enable_support;support_type;layer_height;wall_loops;''
                      @ ''sparse_infill_density;nozzle_temperature;hot_plate_temp'')]),
      (''resolution'', JStr ''0.01''),
      (''detect_thin_wall'', JStr ''1'')]"

definition tree_settings :: "(json \<Rightarrow> string) \<Rightarrow> py_dict \<Rightarrow> py_dict" where
  "tree_settings repr profile =
     [(''tree_support_branch_angle'',
         JStr (str_get repr profile ''tree_support_branch_angle'' ''45'')),
      (''tree_support_branch_angle_organic'',
         JStr (str_get repr profile ''tree_support_branch_angle'' ''45'')),
      (''tree_support_branch_distance'', JStr ''5''),
      (''tree_support_branch_distance_organic'', JStr ''5''),
      (''tree_support_branch_diameter'', JStr ''2''),
      (''tree_support_branch_diameter_organic'', JStr ''2''),
      (''tree_support_wall_count'',
         JStr (str_get repr profile ''tree_support_wall_count'' ''0'')),
      (''tree_support_adaptive_layer_height'', JStr ''1''),
      (''tree_support_tip_diameter'', JStr ''2''),
      (''tree_support_top_rate'', JStr ''30%'')]"

text \<open>
  \<open>ProfileGenerator._generate_elegoo_project_settings\<close>. \<open>defaults\<close> is what
  \<open>_load_elegoo_defaults\<close> returns: the contents of the template file
  \<open>elegoo_default_settings.json\<close>, or the empty dict when it is missing or unreadable.
\<close>

definition generate_elegoo_project_settings ::
  "(json \<Rightarrow> string) \<Rightarrow> py_dict \<Rightarrow> py_dict \<Rightarrow> string \<Rightarrow> py_dict" where
  "generate_elegoo_project_settings repr defaults profile material =
     (let settings = defaults;
          ai = ai_settings repr profile material;
          ai = (if is_tree repr profile
                   \<and> truthy (dict_get profile ''support_material'' (JBool False))
                then dict_update ai (tree_settings repr profile) else ai)
      in dict_update settings ai)"

text \<open>Test data: a profile that asks for tree supports, a template that sets the two
  support keys differently, and a stand-in for the interpreter's \<open>repr\<close>.\<close>

definition profile_tree :: py_dict where
  "profile_tree =
     [(''support_material'', JBool True),
      (''support_type'', JStr ''Tree_Auto''),
      (''support_style'', JStr ''tree'')]"

definition template_defaults :: py_dict where
  "template_defaults =
     [(''support_style'', JStr ''tree_slim''),
      (''support_type'', JStr ''normal(manual)''),
      (''print_sequence'', JStr ''by layer'')]"

definition repr_stub :: "json \<Rightarrow> string" where
  "repr_stub v = ''?''"

section \<open>Package assembly and profile generation (profile\_generator.py)\<close>

text \<open>
  The file system as far as these functions touch it: which files exist below the
  output directory, each either written to the end or cut off while being written, and
  which directories exist. The files inside the temporary directory live and die with
  it and are not tracked one by one.
\<close>

datatype file_state = Written | Partial

record filesystem =
  files :: "string \<Rightarrow> file_state option"
  dirs :: "string set"

text \<open>
  What the operating system and the libraries answer is an input of the model.
  A step that only creates directories or writes inside the temporary directory either
  succeeds (\<open>None\<close>) or raises; a step that writes a file at its final path is
  \<open>Completed\<close>, or \<open>Aborted\<close> (it raised before the file was opened, nothing is on
  disk), or \<open>Interrupted\<close> (it raised while writing, the file is on disk but cut off).
\<close>

datatype outcome = Completed | Aborted py_error | Interrupted py_error

record assembly_env =
  temp_dir_created :: "py_error option"
  loaded :: "py_error + mesh"
  model_dir_created :: "py_error option"
  parts_written :: "py_error option"
  metadata_written :: "py_error option"
  archive :: outcome
  temp_dir_removed :: "py_error option"

text \<open>\<open>os.path.join\<close> of a directory and a relative name, on POSIX.\<close>

definition path_join :: "string \<Rightarrow> string \<Rightarrow> string" where
  "path_join d name =
     (if d = [] \<or> last d = CHR ''/'' then d @ name else d @ ''/'' @ name)"

text \<open>Writing a file at its final path.\<close>

definition write_file :: "outcome \<Rightarrow> string \<Rightarrow> filesystem \<Rightarrow> py_error option \<times> filesystem" where
  "write_file oc path fs =
     (case oc of
        Completed \<Rightarrow> (None, fs\<lparr>files := (files fs)(path \<mapsto> Written)\<rparr>)
      | Aborted e \<Rightarrow> (Some e, fs)
      | Interrupted e \<Rightarrow> (Some e, fs\<lparr>files := (files fs)(path \<mapsto> Partial)\<rparr>))"

text \<open>
  The body of the \<open>try\<close> in \<open>ProfileGenerator._generate_3mf_with_settings\<close>, in the
  order of the source: create the temporary directory, load the model, create the
  \<open>3D\<close> directory, generate the model XML, write the model, content-type and
  relationship parts, write the metadata parts (dummy thumbnails never raise), and
  write the ZIP archive at \<open>output_path\<close>. Every \<open>except\<close> in the body logs and
  re-raises. Both slicer variants fail and succeed at the same steps.
\<close>

definition assemble ::
  "assembly_env \<Rightarrow> string \<Rightarrow> string \<Rightarrow> real \<Rightarrow> filesystem \<Rightarrow> (py_error + string) \<times> filesystem" where
  "assemble env output_path temp_dir build_plate_size fs =
     (case temp_dir_created env of
        Some e \<Rightarrow> (Inl e, fs)
      | None \<Rightarrow>
     (let fs = fs\<lparr>dirs := insert temp_dir (dirs fs)\<rparr>
      in case loaded env of
           Inl e \<Rightarrow> (Inl e, fs)
         | Inr mesh \<Rightarrow>
        (case model_dir_created env of
           Some e \<Rightarrow> (Inl e, fs)
         | None \<Rightarrow>
        (case generate_3mf_model_xml mesh build_plate_size of
           Inl e \<Rightarrow> (Inl e, fs)
         | Inr placement \<Rightarrow>
        (case parts_written env of
           Some e \<Rightarrow> (Inl e, fs)
         | None \<Rightarrow>
        (case metadata_written env of
           Some e \<Rightarrow> (Inl e, fs)
         | None \<Rightarrow>
        (case write_file (archive env) output_path fs of
           (Some e, fs) \<Rightarrow> (Inl e, fs)
         | (None, fs) \<Rightarrow> (Inr output_path, fs))))))))"

text \<open>The \<open>finally\<close> clause: remove the temporary directory if it exists; a failure
  of the removal is logged and not raised.\<close>

definition cleanup :: "assembly_env \<Rightarrow> string \<Rightarrow> filesystem \<Rightarrow> filesystem" where
  "cleanup env temp_dir fs =
     (if temp_dir \<in> dirs fs then
        (case temp_dir_removed env of
           None \<Rightarrow> fs\<lparr>dirs := dirs fs - {temp_dir}\<rparr>
         | Some e \<Rightarrow> fs)
      else fs)"

definition generate_3mf_with_settings ::
  "assembly_env \<Rightarrow> string \<Rightarrow> string \<Rightarrow> real \<Rightarrow> filesystem \<Rightarrow> (py_error + string) \<times> filesystem" where
  "generate_3mf_with_settings env output_dir base_filename build_plate_size fs =
     (let output_path = path_join output_dir (base_filename @ ''.3mf'');
          temp_dir = path_join output_dir (''temp_'' @ base_filename);
          (result, fs) = assemble env output_path temp_dir build_plate_size fs
      in (result, cleanup env temp_dir fs))"

text \<open>Every step before the archive is written succeeds.\<close>

definition reaches_archive :: "assembly_env \<Rightarrow> real \<Rightarrow> bool" where
  "reaches_archive env build_plate_size =
     (temp_dir_created env = None
      \<and> (case loaded env of
            Inl e \<Rightarrow> False
          | Inr mesh \<Rightarrow> (case generate_3mf_model_xml mesh build_plate_size of
                          Inl e \<Rightarrow> False | Inr p \<Rightarrow> True))
      \<and> model_dir_created env = None
      \<and> parts_written env = None
      \<and> metadata_written env = None)"




text \<open>
  Test data: an empty output directory; an environment in which everything works, with
  the cube as the model; one in which the archive write is interrupted; one in which
  the archive cannot be opened; one in which the model cannot be loaded; a run in which
  the output directory is not writable, so that neither the temporary directory nor any
  output file can be created; and a run whose profile is not a dict, so that every
  generator raises \<open>AttributeError\<close> at its first \<open>profile.get\<close>.
\<close>

definition empty_fs :: filesystem where
  "empty_fs = \<lparr> files = (\<lambda>p. None), dirs = {''out''} \<rparr>"

definition all_fine :: assembly_env where
  "all_fine =
     \<lparr> temp_dir_created = None, loaded = Inr cube10, model_dir_created = None,
       parts_written = None, metadata_written = None, archive = Completed,
       temp_dir_removed = None \<rparr>"

definition archive_cut_off :: assembly_env where
  "archive_cut_off = all_fine\<lparr>archive := Interrupted OSError\<rparr>"

definition archive_refused :: assembly_env where
  "archive_refused = all_fine\<lparr>archive := Aborted OSError\<rparr>"

definition load_fails :: assembly_env where
  "load_fails = all_fine\<lparr>loaded := Inl ValueError\<rparr>"




section \<open>Properties of overhang detection\<close>

subsection \<open>Facts about the counts\<close>

lemma count_nonzero_mono:
  "(\<And>x. P x \<Longrightarrow> Q x) \<Longrightarrow> count_nonzero P xs \<le> count_nonzero Q xs"
  by (induction xs) (auto simp: count_nonzero_def)

lemma percentage_mono: "j \<le> k \<Longrightarrow> percentage j n \<le> percentage k n"
  by (simp add: percentage_def divide_right_mono)

lemma detect_overhangs_returns:
  "face_normals m \<noteq> [] \<Longrightarrow> \<exists>r. detect_overhangs t m = Inr r"
  by (simp add: detect_overhangs_def face_angles_deg_def Let_def)

lemma detect_overhangs_raises:
  "face_normals m = [] \<Longrightarrow> detect_overhangs t m = Inl ValueError"
  by (simp add: detect_overhangs_def face_angles_deg_def Let_def)

lemma detect_overhangs_percentage:
  "detect_overhangs t m = Inr r \<Longrightarrow>
   overhang_percentage r =
     percentage (count_nonzero (\<lambda>a. a > t) (face_angles_deg m)) (length (faces m))"
  by (auto simp: detect_overhangs_def Let_def split: if_splits)

lemma detect_overhangs_severe:
  "detect_overhangs t m = Inr r \<Longrightarrow>
   severe_overhang_percentage r =
     percentage (count_nonzero (\<lambda>a. a > 60) (face_angles_deg m)) (length (faces m))"
  by (auto simp: detect_overhangs_def Let_def split: if_splits)

lemma detect_overhangs_extreme:
  "detect_overhangs t m = Inr r \<Longrightarrow>
   extreme_overhang_percentage r =
     percentage (count_nonzero (\<lambda>a. a > 75) (face_angles_deg m)) (length (faces m))"
  by (auto simp: detect_overhangs_def Let_def split: if_splits)

lemma angles_down_triangle: "face_angles_deg down_triangle = [0]"
  by (simp add: face_angles_deg_def down_triangle_def clip_def degrees_def)

lemma angles_up_square: "face_angles_deg up_square = [180, 180]"
  by (simp add: face_angles_deg_def up_square_def clip_def degrees_def)

lemma faces_down_triangle: "length (faces down_triangle) = 1"
  by (simp add: down_triangle_def)

lemma faces_up_square: "length (faces up_square) = 2"
  by (simp add: up_square_def)

subsection \<open>The downward and the upward scenario\<close>

text \<open>
  C2. A single triangle whose outward normal points straight down, at the default
  threshold of 45 degrees. The code measures the angle between the normal and the axis
  \<open>(0, 0, -1)\<close>, which is 0 for this face, and counts a face only when its angle
  exceeds the threshold: the face is counted at none of the three thresholds, so the
  three percentages are 0 (the claim expects 100).
\<close>

theorem down_triangle_percentages:
  "map_sum id
     (\<lambda>r. (overhang_percentage r, severe_overhang_percentage r,
           extreme_overhang_percentage r, max_overhang_angle r))
     (detect_overhangs 45 down_triangle) = Inr (0, 0, 0, 0)"
  by (simp add: detect_overhangs_def angles_down_triangle faces_down_triangle Let_def
      count_nonzero_def percentage_def)

text \<open>
  C3. A flat square of two triangles whose normals point straight up, at the default
  threshold of 45 degrees. Both faces are at 180 degrees from the axis \<open>(0, 0, -1)\<close>
  and are counted as overhangs: the overhang percentage is 100 and \<open>needs_supports\<close>
  is true (the claim expects 0 and false).
\<close>

theorem up_square_percentages:
  "map_sum id (\<lambda>r. (overhang_percentage r, needs_supports r, max_overhang_angle r))
     (detect_overhangs 45 up_square) = Inr (100, True, 180)"
  by (simp add: detect_overhangs_def angles_up_square faces_up_square Let_def
      count_nonzero_def percentage_def)

text \<open>
  The two scenarios are instances of a rule: on every mesh with a face, when all normals
  point straight up every face is counted at any threshold below 180, and when all
  normals point straight down no face is counted at any threshold from 0 on.
\<close>

lemma all_faces_same_angle:
  assumes "\<forall>n \<in> set (face_normals m). n = v"
  shows "face_angles_deg m
           = replicate (length (face_normals m))
               (degrees (arccos (clip (dot v (0, 0, - 1)) (- 1) 1)))"
  using assms by (simp add: face_angles_deg_def map_replicate_const [symmetric] cong: map_cong)

lemma percentage_all: "0 < n \<Longrightarrow> percentage n n = 100"
  by (simp add: percentage_def)

lemma percentage_none: "percentage 0 n = 0"
  by (simp add: percentage_def)

lemma upward_mesh_all_overhang:
  assumes "faces m \<noteq> []" and "length (face_normals m) = length (faces m)"
    and "\<forall>n \<in> set (face_normals m). n = (0, 0, 1)" and "t < 180"
  shows "\<exists>r. detect_overhangs t m = Inr r \<and> overhang_percentage r = 100 \<and> needs_supports r"
proof -
  have a: "face_angles_deg m = replicate (length (faces m)) 180"
    using all_faces_same_angle [OF assms(3)] by (simp add: clip_def degrees_def assms(2))
  have n: "0 < length (faces m)" using assms(1) by simp
  have c: "count_nonzero (\<lambda>a. a > t) (replicate (length (faces m)) (180::real)) = length (faces m)"
    using assms(4) by (simp add: count_nonzero_def)
  show ?thesis
    using n assms(1) by (simp add: detect_overhangs_def Let_def a c percentage_all)
qed

lemma downward_mesh_no_overhang:
  assumes "faces m \<noteq> []" and "length (face_normals m) = length (faces m)"
    and "\<forall>n \<in> set (face_normals m). n = (0, 0, - 1)" and "0 \<le> t"
  shows "\<exists>r. detect_overhangs t m = Inr r \<and> overhang_percentage r = 0
           \<and> severe_overhang_percentage r = 0 \<and> extreme_overhang_percentage r = 0
           \<and> \<not> needs_supports r"
proof -
  have a: "face_angles_deg m = replicate (length (faces m)) 0"
    using all_faces_same_angle [OF assms(3)] by (simp add: clip_def degrees_def assms(2))
  have c: "count_nonzero (\<lambda>a. a > t') (replicate (length (faces m)) (0::real)) = 0"
    if "0 \<le> t'" for t'
    using that by (simp add: count_nonzero_def)
  show ?thesis
    using assms(1,4) by (simp add: detect_overhangs_def Let_def a c percentage_none)
qed

subsection \<open>Support policy\<close>

text \<open>
  C4. For every mesh with at least one face (and one normal per face, as the library
  provides), overhang detection returns a record in which \<open>needs_supports\<close> is true
  exactly when the overhang percentage exceeds 10, and \<open>recommend_tree_support\<close> is
  true exactly when the severe percentage exceeds 5, or the overhang percentage exceeds
  15 and the extreme percentage exceeds 2, or the overhang percentage exceeds 20.
\<close>

theorem support_policy:
  assumes "faces m \<noteq> []" and "length (face_normals m) = length (faces m)"
  shows "\<exists>r. detect_overhangs t m = Inr r
           \<and> needs_supports r = (overhang_percentage r > 10)
           \<and> recommend_tree_support r =
               (severe_overhang_percentage r > 5
                \<or> (overhang_percentage r > 15 \<and> extreme_overhang_percentage r > 2)
                \<or> overhang_percentage r > 20)"
proof -
  from assms have "face_normals m \<noteq> []" by auto
  then have "face_angles_deg m \<noteq> []" by (simp add: face_angles_deg_def)
  then show ?thesis by (simp add: detect_overhangs_def Let_def)
qed

theorem support_policy_witness:
  "\<exists>r. detect_overhangs 45 up_square = Inr r
       \<and> needs_supports r = (overhang_percentage r > 10)
       \<and> recommend_tree_support r =
           (severe_overhang_percentage r > 5
            \<or> (overhang_percentage r > 15 \<and> extreme_overhang_percentage r > 2)
            \<or> overhang_percentage r > 20)"
proof -
  have 1: "faces up_square \<noteq> []" by (simp add: up_square_def)
  have 2: "length (face_normals up_square) = length (faces up_square)"
    by (simp add: up_square_def)
  show ?thesis by (rule support_policy [OF 1 2])
qed

subsection \<open>Monotonicity in the threshold\<close>

text \<open>
  C5. For thresholds \<open>t1 < t2\<close> and a mesh on which detection returns (one with a
  face), the overhang percentage computed at \<open>t1\<close> is at least the one computed at
  \<open>t2\<close>; and at the default threshold 45 the extreme percentage is at most the severe
  percentage, which is at most the overhang percentage.
\<close>

theorem overhang_monotone:
  assumes "t1 < t2" and "face_normals m \<noteq> []"
  shows "\<exists>r1 r2 r. detect_overhangs t1 m = Inr r1 \<and> detect_overhangs t2 m = Inr r2
           \<and> overhang_percentage r2 \<le> overhang_percentage r1
           \<and> detect_overhangs 45 m = Inr r
           \<and> extreme_overhang_percentage r \<le> severe_overhang_percentage r
           \<and> severe_overhang_percentage r \<le> overhang_percentage r"
proof -
  let ?as = "face_angles_deg m" and ?n = "length (faces m)"
  obtain r1 where r1: "detect_overhangs t1 m = Inr r1"
    using detect_overhangs_returns [OF assms(2)] by blast
  obtain r2 where r2: "detect_overhangs t2 m = Inr r2"
    using detect_overhangs_returns [OF assms(2)] by blast
  obtain r where r: "detect_overhangs 45 m = Inr r"
    using detect_overhangs_returns [OF assms(2)] by blast
  have "count_nonzero (\<lambda>a. a > t2) ?as \<le> count_nonzero (\<lambda>a. a > t1) ?as"
    using assms(1) by (intro count_nonzero_mono) simp
  then have a: "overhang_percentage r2 \<le> overhang_percentage r1"
    by (simp add: detect_overhangs_percentage [OF r1] detect_overhangs_percentage [OF r2]
        percentage_mono)
  have "count_nonzero (\<lambda>a. a > 75) ?as \<le> count_nonzero (\<lambda>a. a > 60) ?as"
    by (intro count_nonzero_mono) simp
  then have b: "extreme_overhang_percentage r \<le> severe_overhang_percentage r"
    by (simp add: detect_overhangs_extreme [OF r] detect_overhangs_severe [OF r]
        percentage_mono)
  have "count_nonzero (\<lambda>a. a > 60) ?as \<le> count_nonzero (\<lambda>a. a > 45) ?as"
    by (intro count_nonzero_mono) simp
  then have c: "severe_overhang_percentage r \<le> overhang_percentage r"
    by (simp add: detect_overhangs_severe [OF r] detect_overhangs_percentage [OF r]
        percentage_mono)
  from r1 r2 r a b c show ?thesis by blast
qed

theorem overhang_monotone_witness:
  "\<exists>r1 r2 r. detect_overhangs 45 up_square = Inr r1 \<and> detect_overhangs 200 up_square = Inr r2
       \<and> overhang_percentage r2 \<le> overhang_percentage r1
       \<and> detect_overhangs 45 up_square = Inr r
       \<and> extreme_overhang_percentage r \<le> severe_overhang_percentage r
       \<and> severe_overhang_percentage r \<le> overhang_percentage r"
proof -
  have 1: "(45::real) < 200" by simp
  have 2: "face_normals up_square \<noteq> []" by (simp add: up_square_def)
  show ?thesis by (rule overhang_monotone [OF 1 2])
qed

section \<open>Properties of the build-plate placement\<close>

subsection \<open>Scale\<close>

lemma round_half_even_le: "y \<le> of_int k \<Longrightarrow> round_half_even y \<le> k"
  unfolding round_half_even_def Let_def by (auto simp: floor_le_iff; linarith)

lemma format_6f_le_1: "s \<le> 1 \<Longrightarrow> format_6f s \<le> 1"
proof -
  assume "s \<le> 1"
  then have "s * 1000000 \<le> of_int 1000000" by simp
  then have "round_half_even (s * 1000000) \<le> 1000000" by (rule round_half_even_le)
  then have "(of_int (round_half_even (s * 1000000)) :: real) \<le> 1000000" by linarith
  then show ?thesis by (simp add: format_6f_def)
qed

lemma generate_3mf_model_xml_fields:
  assumes "bounds m = Some ((x0, y0, z0), (x1, y1, z1))"
  shows "\<exists>p. generate_3mf_model_xml m plate = Inr p
           \<and> scale p = (if max (x1 - x0) (y1 - y0) > plate - 10
                         then np_div (plate - 10) (max (x1 - x0) (y1 - y0)) else Fin 1)
           \<and> matrix_scale p = scale_str (scale p)
           \<and> offset_x p = plate / 2 \<and> offset_y p = plate / 2
           \<and> offset_z p = np_mul ((z1 - z0) / 2) (scale p)
           \<and> norm_vertices p = map (center_point ((x0 + x1) / 2, (y0 + y1) / 2, z0)) (vertices m)
           \<and> triangles p = faces m"
  using assms by (simp add: generate_3mf_model_xml_def Let_def)

text \<open>
  C6. With \<open>maxDim = max w d\<close> over the X/Y extents of the bounding box and
  \<open>safeSize = plateSize - 2 * 5\<close> (the margin is the constant 5 mm), the computed scale is
  \<open>safeSize / maxDim\<close> when \<open>maxDim > safeSize\<close> and 1 otherwise; where that division is
  by zero (a mesh without X/Y extent on a plate below 10 mm) numpy yields minus
  infinity. Neither the computed scale nor the six-decimal number written into the
  matrix exceeds 1. An X/Y extent of 300 on a 220 plate gives \<open>210 / 300 = 0.7\<close>.
\<close>

theorem scale_rule:
  assumes "bounds m = Some ((x0, y0, z0), (x1, y1, z1))" and "x0 \<le> x1" and "y0 \<le> y1"
  shows "\<exists>p. generate_3mf_model_xml m plate = Inr p
           \<and> scale p =
               (if max (x1 - x0) (y1 - y0) > plate - 2 * 5
                then if max (x1 - x0) (y1 - y0) = 0 then NegInf
                     else Fin ((plate - 2 * 5) / max (x1 - x0) (y1 - y0))
                else Fin 1)
           \<and> \<not> np_gt (scale p) 1 \<and> \<not> np_gt (matrix_scale p) 1
           \<and> (max (x1 - x0) (y1 - y0) = 300 \<and> plate = 220
                \<longrightarrow> scale p = Fin (210 / 300) \<and> matrix_scale p = Fin (7 / 10))"
proof -
  let ?d = "max (x1 - x0) (y1 - y0)"
  obtain p where p: "generate_3mf_model_xml m plate = Inr p"
    and s: "scale p = (if ?d > plate - 10 then np_div (plate - 10) ?d else Fin 1)"
    and ms: "matrix_scale p = scale_str (scale p)"
    using generate_3mf_model_xml_fields [OF assms(1)] by blast
  have d0: "0 \<le> ?d" using assms(2) by simp
  have a: "scale p = (if ?d > plate - 2 * 5 then if ?d = 0 then NegInf
                        else Fin ((plate - 2 * 5) / ?d) else Fin 1)"
    by (auto simp: s np_div_def)
  consider (neg) "scale p = NegInf" | (fin) r where "scale p = Fin r" "r \<le> 1"
  proof (cases "?d > plate - 10")
    case False
    then show ?thesis using that(2) [of 1] s by simp
  next
    case True
    show ?thesis
    proof (cases "?d = 0")
      case True
      with \<open>?d > plate - 10\<close> a show ?thesis using that(1) by simp
    next
      case False
      with d0 have "0 < ?d" by linarith
      with True have "(plate - 10) / ?d \<le> 1" by (simp add: divide_le_eq)
      moreover have "scale p = Fin ((plate - 10) / ?d)"
        using True False s by (simp add: np_div_def)
      ultimately show ?thesis using that(2) by blast
    qed
  qed
  then have b: "\<not> np_gt (scale p) 1 \<and> \<not> np_gt (matrix_scale p) 1"
  proof cases
    case neg
    then show ?thesis by (simp add: ms)
  next
    case fin
    then show ?thesis using format_6f_le_1 [of r] by (simp add: ms not_less)
  qed
  have c: "?d = 300 \<and> plate = 220 \<longrightarrow> scale p = Fin (210 / 300) \<and> matrix_scale p = Fin (7 / 10)"
  proof
    assume h: "?d = 300 \<and> plate = 220"
    then have "scale p = Fin (7 / 10)" by (simp add: s np_div_def)
    moreover have "format_6f (7 / 10) = 7 / 10"
      by (simp add: format_6f_def round_half_even_def)
    ultimately show "scale p = Fin (210 / 300) \<and> matrix_scale p = Fin (7 / 10)"
      by (simp add: ms)
  qed
  from p a b c show ?thesis by blast
qed

theorem scale_rule_witness:
  "\<exists>p. generate_3mf_model_xml plank300 220 = Inr p
       \<and> scale p = Fin (210 / 300) \<and> matrix_scale p = Fin (7 / 10)
       \<and> \<not> np_gt (scale p) 1 \<and> \<not> np_gt (matrix_scale p) 1"
proof -
  have 1: "bounds plank300 = Some ((0, 0, 0), (300, 20, 0))" by (simp add: plank300_def)
  show ?thesis using scale_rule [OF 1, of 220] by auto
qed

subsection \<open>Containment on the plate\<close>

lemma scaled_half_extent:
  fixes s :: real
  assumes "0 \<le> s" and "s * (x1 - x0) \<le> safe" and "x0 \<le> x" and "x \<le> x1"
  shows "\<bar>s * (x - (x0 + x1) / 2)\<bar> \<le> safe / 2"
proof -
  have "\<bar>x - (x0 + x1) / 2\<bar> \<le> (x1 - x0) / 2"
    using assms(3,4) by (simp add: abs_le_iff field_simps)
  then have "s * \<bar>x - (x0 + x1) / 2\<bar> \<le> s * ((x1 - x0) / 2)"
    using assms(1) by (rule mult_left_mono)
  also have "\<dots> \<le> safe / 2" using assms(2) by simp
  finally show ?thesis using assms(1) by (simp add: abs_mult)
qed

lemma fit_scale:
  fixes w d safe :: real
  assumes "0 \<le> w" and "0 \<le> d" and "0 \<le> safe"
  shows "\<exists>s. (if max w d > safe then np_div safe (max w d) else Fin 1) = Fin s
           \<and> 0 \<le> s \<and> s * w \<le> safe \<and> s * d \<le> safe"
proof (cases "max w d > safe")
  case False
  then show ?thesis by auto
next
  case True
  with assms(3) have pos: "0 < max w d" by linarith
  have "safe / max w d * w \<le> safe"
    using pos assms by (simp add: pos_divide_le_eq mult_left_mono)
  moreover have "safe / max w d * d \<le> safe"
    using pos assms by (simp add: pos_divide_le_eq mult_left_mono)
  moreover have "0 \<le> safe / max w d" using pos assms(3) by simp
  ultimately show ?thesis using True pos by (simp add: np_div_def)
qed

text \<open>
  On a plate of at least 10 mm the transform is finite and every point of the mesh's
  bounding box, stored centered, is placed inside the plate with the 5 mm margin; its
  height above the plate is its height above the bottom of the mesh plus half the
  scaled height of the mesh.
\<close>

lemma placement_margin:
  assumes b: "bounds m = Some ((x0, y0, z0), (x1, y1, z1))"
    and "x0 \<le> x1" and "y0 \<le> y1" and "10 \<le> plate"
  shows "\<exists>p s. generate_3mf_model_xml m plate = Inr p \<and> scale p = Fin s
           \<and> (\<forall>x y z. x0 \<le> x \<and> x \<le> x1 \<and> y0 \<le> y \<and> y \<le> y1 \<longrightarrow>
                 (\<exists>x' y'. place p (center_point ((x0 + x1) / 2, (y0 + y1) / 2, z0) (x, y, z))
                                = Some (x', y', s * (z - z0) + (z1 - z0) / 2 * s)
                    \<and> 5 \<le> x' \<and> x' \<le> plate - 5 \<and> 5 \<le> y' \<and> y' \<le> plate - 5))"
proof -
  let ?w = "x1 - x0" and ?d = "y1 - y0"
  obtain p where p: "generate_3mf_model_xml m plate = Inr p"
    and sp: "scale p = (if max ?w ?d > plate - 10 then np_div (plate - 10) (max ?w ?d) else Fin 1)"
    and ox: "offset_x p = plate / 2" and oy: "offset_y p = plate / 2"
    and oz: "offset_z p = np_mul ((z1 - z0) / 2) (scale p)"
    using generate_3mf_model_xml_fields [OF b] by blast
  obtain s where s: "scale p = Fin s" and s0: "0 \<le> s"
    and sw: "s * ?w \<le> plate - 10" and sd: "s * ?d \<le> plate - 10"
    using fit_scale [of ?w ?d "plate - 10"] assms(2,3,4) sp by auto
  have ozs: "offset_z p = Fin ((z1 - z0) / 2 * s)" by (simp add: oz s np_mul_def)
  have "\<exists>x' y'. place p (center_point ((x0 + x1) / 2, (y0 + y1) / 2, z0) (x, y, z))
                                = Some (x', y', s * (z - z0) + (z1 - z0) / 2 * s)
                    \<and> 5 \<le> x' \<and> x' \<le> plate - 5 \<and> 5 \<le> y' \<and> y' \<le> plate - 5"
    if h: "x0 \<le> x \<and> x \<le> x1 \<and> y0 \<le> y \<and> y \<le> y1" for x y z
  proof -
    have ax: "\<bar>s * (x - (x0 + x1) / 2)\<bar> \<le> (plate - 10) / 2"
      using scaled_half_extent [OF s0 sw] h by blast
    have ay: "\<bar>s * (y - (y0 + y1) / 2)\<bar> \<le> (plate - 10) / 2"
      using scaled_half_extent [OF s0 sd] h by blast
    have "place p (center_point ((x0 + x1) / 2, (y0 + y1) / 2, z0) (x, y, z))
          = Some (s * (x - (x0 + x1) / 2) + plate / 2, s * (y - (y0 + y1) / 2) + plate / 2,
                  s * (z - z0) + (z1 - z0) / 2 * s)"
      by (simp add: place_def s ozs ox oy)
    moreover have "5 \<le> s * (x - (x0 + x1) / 2) + plate / 2"
      using ax by (simp add: abs_le_iff)
    moreover have "s * (x - (x0 + x1) / 2) + plate / 2 \<le> plate - 5"
      using ax by (simp add: abs_le_iff)
    moreover have "5 \<le> s * (y - (y0 + y1) / 2) + plate / 2"
      using ay by (simp add: abs_le_iff)
    moreover have "s * (y - (y0 + y1) / 2) + plate / 2 \<le> plate - 5"
      using ay by (simp add: abs_le_iff)
    ultimately show ?thesis by blast
  qed
  with p s show ?thesis by blast
qed

lemma cube10_placement:
  "generate_3mf_model_xml cube10 220 =
     Inr \<lparr> norm_vertices = [(- 5, - 5, 0), (5, - 5, 0), (5, 5, 0), (- 5, 5, 0),
                            (- 5, - 5, 10), (5, - 5, 10), (5, 5, 10), (- 5, 5, 10)],
           triangles = faces cube10,
           scale = Fin 1, matrix_scale = Fin 1,
           offset_x = 110, offset_y = 110, offset_z = Fin 5 \<rparr>"
  by (simp add: generate_3mf_model_xml_def cube10_def np_mul_def Let_def)

subsection \<open>The scale as written\<close>

text \<open>
  The matrix string carries the scale with six decimals, at most \<open>0.0000005\<close> away
  from the computed one. Over an extent of up to 20 km this adds at most the 10 mm of
  the two margins.
\<close>

lemma round_half_even_close: "\<bar>of_int (round_half_even y) - y\<bar> \<le> 1 / 2"
  unfolding round_half_even_def Let_def by (auto; linarith)

lemma round_half_even_nonneg: "0 \<le> y \<Longrightarrow> 0 \<le> round_half_even y"
  unfolding round_half_even_def Let_def by auto

lemma format_6f_close: "\<bar>format_6f s - s\<bar> \<le> 1 / 2000000"
proof -
  have "\<bar>of_int (round_half_even (s * 1000000)) - s * 1000000\<bar> \<le> 1 / 2"
    by (rule round_half_even_close)
  then have "\<bar>(of_int (round_half_even (s * 1000000)) - s * 1000000) / 1000000\<bar>
               \<le> (1 / 2) / 1000000"
    by (simp only: abs_divide) (simp add: divide_right_mono)
  then show ?thesis by (simp add: format_6f_def diff_divide_distrib)
qed

lemma format_6f_nonneg: "0 \<le> s \<Longrightarrow> 0 \<le> format_6f s"
  using round_half_even_nonneg [of "s * 1000000"] by (simp add: format_6f_def)

lemma rendered_extent:
  fixes s w safe :: real
  assumes "0 \<le> s" and "s * w \<le> safe" and "0 \<le> w" and "w \<le> 20000000"
  shows "format_6f s * w \<le> safe + 10"
proof -
  have "format_6f s \<le> s + 1 / 2000000" using format_6f_close [of s] by linarith
  then have "format_6f s * w \<le> (s + 1 / 2000000) * w" using assms(3) by (rule mult_right_mono)
  also have "\<dots> = s * w + w / 2000000" by (simp add: algebra_simps)
  also have "\<dots> \<le> safe + 10" using assms(2,4) by simp
  finally show ?thesis .
qed

text \<open>
  C1, as amended. For every mesh with a bounding box of at most 20 km (\<open>2 * 10^7\<close> mm)
  in X and in Y and every plate of at least 10 mm (so that the safe size is not
  negative), the returned transform, with the scale as the matrix string carries it,
  is finite and places every point of the bounding box of the centered mesh within
  \<open>[0, plateSize]\<close> in X and in Y. For a 10 by 10 footprint on a 220 plate the scale is
  1 and the translation is \<open>(110, 110)\<close> in X/Y, which is where the center of the box
  is placed. Nothing is stated about Z.
\<close>

theorem placement_within_plate:
  assumes "bounds m = Some ((x0, y0, z0), (x1, y1, z1))"
    and "x0 \<le> x1" and "y0 \<le> y1" and "10 \<le> plate"
    and "x1 - x0 \<le> 20000000" and "y1 - y0 \<le> 20000000"
  shows "\<exists>p. generate_3mf_model_xml m plate = Inr p
           \<and> (\<forall>x y z. x0 \<le> x \<and> x \<le> x1 \<and> y0 \<le> y \<and> y \<le> y1 \<longrightarrow>
                 (\<exists>x' y' z'. place_rendered p
                                (center_point ((x0 + x1) / 2, (y0 + y1) / 2, z0) (x, y, z))
                                = Some (x', y', z')
                    \<and> 0 \<le> x' \<and> x' \<le> plate \<and> 0 \<le> y' \<and> y' \<le> plate))
           \<and> (x1 - x0 = 10 \<and> y1 - y0 = 10 \<and> plate = 220 \<longrightarrow>
                 scale p = Fin 1 \<and> matrix_scale p = Fin 1
                 \<and> offset_x p = 110 \<and> offset_y p = 110
                 \<and> (\<exists>z'. place_rendered p
                            (center_point ((x0 + x1) / 2, (y0 + y1) / 2, z0)
                               ((x0 + x1) / 2, (y0 + y1) / 2, z0)) = Some (110, 110, z')))"
proof -
  let ?c = "((x0 + x1) / 2, (y0 + y1) / 2, z0)"
  let ?w = "x1 - x0" and ?d = "y1 - y0"
  obtain p where p: "generate_3mf_model_xml m plate = Inr p"
    and sp: "scale p = (if max ?w ?d > plate - 10 then np_div (plate - 10) (max ?w ?d) else Fin 1)"
    and ms: "matrix_scale p = scale_str (scale p)"
    and ox: "offset_x p = plate / 2" and oy: "offset_y p = plate / 2"
    and oz: "offset_z p = np_mul ((z1 - z0) / 2) (scale p)"
    using generate_3mf_model_xml_fields [OF assms(1)] by blast
  obtain s where s: "scale p = Fin s" and s0: "0 \<le> s"
    and sw: "s * ?w \<le> plate - 10" and sd: "s * ?d \<le> plate - 10"
    using fit_scale [of ?w ?d "plate - 10"] assms(2,3,4) sp by auto
  have ozs: "offset_z p = Fin ((z1 - z0) / 2 * s)" by (simp add: oz s np_mul_def)
  obtain r where r: "matrix_scale p = Fin r" and r0: "0 \<le> r"
    and rw: "r * ?w \<le> plate" and rd: "r * ?d \<le> plate"
  proof (cases "s = 1")
    case True
    then show ?thesis using that [of 1] ms s sw sd by simp
  next
    case False
    have "format_6f s * ?w \<le> plate - 10 + 10"
      using rendered_extent [OF s0 sw] assms(2,5) by simp
    moreover have "format_6f s * ?d \<le> plate - 10 + 10"
      using rendered_extent [OF s0 sd] assms(3,6) by simp
    ultimately show ?thesis
      using that [of "format_6f s"] False ms s format_6f_nonneg [OF s0] by simp
  qed
  have a: "\<exists>x' y' z'. place_rendered p (center_point ?c (x, y, z)) = Some (x', y', z')
             \<and> 0 \<le> x' \<and> x' \<le> plate \<and> 0 \<le> y' \<and> y' \<le> plate"
    if inside: "x0 \<le> x \<and> x \<le> x1 \<and> y0 \<le> y \<and> y \<le> y1" for x y z
  proof -
    have ax: "\<bar>r * (x - (x0 + x1) / 2)\<bar> \<le> plate / 2"
      using scaled_half_extent [OF r0 rw] inside by blast
    have ay: "\<bar>r * (y - (y0 + y1) / 2)\<bar> \<le> plate / 2"
      using scaled_half_extent [OF r0 rd] inside by blast
    have "place_rendered p (center_point ?c (x, y, z))
          = Some (r * (x - (x0 + x1) / 2) + plate / 2, r * (y - (y0 + y1) / 2) + plate / 2,
                  r * (z - z0) + (z1 - z0) / 2 * s)"
      by (simp add: place_rendered_def r ozs ox oy)
    moreover have "0 \<le> r * (x - (x0 + x1) / 2) + plate / 2"
      using ax by (simp add: abs_le_iff)
    moreover have "r * (x - (x0 + x1) / 2) + plate / 2 \<le> plate"
      using ax by (simp add: abs_le_iff)
    moreover have "0 \<le> r * (y - (y0 + y1) / 2) + plate / 2"
      using ay by (simp add: abs_le_iff)
    moreover have "r * (y - (y0 + y1) / 2) + plate / 2 \<le> plate"
      using ay by (simp add: abs_le_iff)
    ultimately show ?thesis by blast
  qed
  have b: "scale p = Fin 1 \<and> matrix_scale p = Fin 1 \<and> offset_x p = 110 \<and> offset_y p = 110
           \<and> (\<exists>z'. place_rendered p (center_point ?c ?c) = Some (110, 110, z'))"
    if h: "x1 - x0 = 10 \<and> y1 - y0 = 10 \<and> plate = 220"
  proof -
    from h have s1: "scale p = Fin 1" using sp by simp
    then have m1: "matrix_scale p = Fin 1" by (simp add: ms)
    have "offset_x p = 110" "offset_y p = 110" using ox oy h by simp_all
    moreover have "offset_z p = Fin ((z1 - z0) / 2)" using oz s1 by (simp add: np_mul_def)
    ultimately have "scale p = Fin 1 \<and> matrix_scale p = Fin 1
           \<and> offset_x p = 110 \<and> offset_y p = 110
           \<and> place_rendered p (center_point ?c ?c) = Some (110, 110, (z1 - z0) / 2)"
      using s1 m1 by (simp add: place_rendered_def)
    then show ?thesis by blast
  qed
  from p a b show ?thesis by blast
qed

theorem placement_within_plate_witness:
  "\<exists>p x' y' z'. generate_3mf_model_xml cube10 220 = Inr p
       \<and> place_rendered p (center_point (5, 5, 0) (10, 10, 10)) = Some (x', y', z')
       \<and> 0 \<le> x' \<and> x' \<le> 220 \<and> 0 \<le> y' \<and> y' \<le> 220
       \<and> scale p = Fin 1 \<and> matrix_scale p = Fin 1 \<and> offset_x p = 110 \<and> offset_y p = 110"
proof -
  have 1: "bounds cube10 = Some ((0, 0, 0), (10, 10, 10))" by (simp add: cube10_def)
  obtain p where p: "generate_3mf_model_xml cube10 220 = Inr p"
    and box: "\<And>x y z. 0 \<le> x \<and> x \<le> 10 \<and> 0 \<le> y \<and> y \<le> 10 \<Longrightarrow>
                 \<exists>x' y' z'. place_rendered p (center_point (5, 5, 0) (x, y, z))
                                = Some (x', y', z')
                    \<and> 0 \<le> x' \<and> x' \<le> 220 \<and> 0 \<le> y' \<and> y' \<le> 220"
    and sc: "scale p = Fin 1 \<and> matrix_scale p = Fin 1 \<and> offset_x p = 110 \<and> offset_y p = 110"
    using placement_within_plate [OF 1, of 220] by auto
  from box [of 10 10 10] p sc show ?thesis by auto
qed

text \<open>
  C1, as stated, fails in three ways. The cube of side 10 on a 220 plate is stored with
  its bottom at \<open>z = 0\<close> and gets the Z offset 5, half its height, so it is placed
  between \<open>z = 5\<close> and \<open>z = 15\<close>: the minimum Z is 5, not 0. On a plate of 2 mm the
  safe size is \<open>-8\<close>, the unit square gets the scale \<open>-8\<close>, and its corners are placed
  at \<open>-3\<close> and \<open>5\<close>, outside \<open>[0, 2]\<close>. And for the strip of 300 km on a 220 plate
  the scale \<open>0.0000007\<close> is written as \<open>0.000001\<close>, which places its ends at \<open>-40\<close>
  and \<open>260\<close>, outside \<open>[0, 220]\<close>.
\<close>

theorem placement_counterexample:
  "map_sum id offset_z (generate_3mf_model_xml cube10 220) = Inr (Fin 5)
   \<and> placed_vertices cube10 220 =
       Inr [Some (105, 105, 5), Some (115, 105, 5), Some (115, 115, 5), Some (105, 115, 5),
            Some (105, 105, 15), Some (115, 105, 15), Some (115, 115, 15), Some (105, 115, 15)]
   \<and> placed_vertices up_square 2 =
       Inr [Some (5, 5, 0), Some (- 3, 5, 0), Some (- 3, - 3, 0), Some (5, - 3, 0)]
   \<and> map_sum id matrix_scale (generate_3mf_model_xml long_strip 220) = Inr (Fin (1 / 1000000))
   \<and> placed_vertices long_strip 220 =
       Inr [Some (- 40, 219999999 / 2000000, 0), Some (260, 219999999 / 2000000, 0),
            Some (260, 220000001 / 2000000, 0), Some (- 40, 220000001 / 2000000, 0)]"
proof -
  have "generate_3mf_model_xml up_square 2 =
     Inr \<lparr> norm_vertices = [(- (1 / 2), - (1 / 2), 0), (1 / 2, - (1 / 2), 0),
                            (1 / 2, 1 / 2, 0), (- (1 / 2), 1 / 2, 0)],
           triangles = [(0, 1, 2), (0, 2, 3)],
           scale = Fin (- 8), matrix_scale = Fin (- 8),
           offset_x = 1, offset_y = 1, offset_z = Fin 0 \<rparr>"
    by (simp add: generate_3mf_model_xml_def up_square_def np_mul_def np_div_def Let_def
        format_6f_def round_half_even_def)
  then have "placed_vertices up_square 2 =
       Inr [Some (5, 5, 0), Some (- 3, 5, 0), Some (- 3, - 3, 0), Some (5, - 3, 0)]"
    by (simp add: placed_vertices_def place_rendered_def)
  moreover have "placed_vertices cube10 220 =
       Inr [Some (105, 105, 5), Some (115, 105, 5), Some (115, 115, 5), Some (105, 115, 5),
            Some (105, 105, 15), Some (115, 105, 15), Some (115, 115, 15), Some (105, 115, 15)]"
    by (simp add: placed_vertices_def place_rendered_def cube10_placement)
  moreover have "map_sum id offset_z (generate_3mf_model_xml cube10 220) = Inr (Fin 5)"
    by (simp add: cube10_placement)
  moreover have strip: "generate_3mf_model_xml long_strip 220 =
     Inr \<lparr> norm_vertices = [(- 150000000, - (1 / 2), 0), (150000000, - (1 / 2), 0),
                            (150000000, 1 / 2, 0), (- 150000000, 1 / 2, 0)],
           triangles = [(0, 1, 2), (0, 2, 3)],
           scale = Fin (7 / 10000000), matrix_scale = Fin (1 / 1000000),
           offset_x = 110, offset_y = 110, offset_z = Fin 0 \<rparr>"
    by (simp add: generate_3mf_model_xml_def long_strip_def np_mul_def np_div_def Let_def
        format_6f_def round_half_even_def)
  moreover from strip have "placed_vertices long_strip 220 =
       Inr [Some (- 40, 219999999 / 2000000, 0), Some (260, 219999999 / 2000000, 0),
            Some (260, 220000001 / 2000000, 0), Some (- 40, 220000001 / 2000000, 0)]"
    by (simp add: placed_vertices_def place_rendered_def)
  moreover from strip
  have "map_sum id matrix_scale (generate_3mf_model_xml long_strip 220) = Inr (Fin (1 / 1000000))"
    by simp
  ultimately show ?thesis by blast
qed

subsection \<open>The sibling solver\<close>

text \<open>
  \<open>_calculate_build_plate_transform\<close> is meant for the mesh as loaded: on a plate of at
  least 10 mm its transform sends the lower corner of the bounding box to the height 0
  and the box to the middle of the plate. For the cube it returns the Z offset 0.
\<close>

lemma calculate_build_plate_transform_bottom:
  assumes "bounds m = Some ((x0, y0, z0), (x1, y1, z1))"
    and "x0 \<le> x1" and "y0 \<le> y1" and "10 \<le> plate"
  shows "\<exists>s tx ty tz. calculate_build_plate_transform m plate = Inr (Fin s, Fin tx, Fin ty, Fin tz)
           \<and> apply_transform s (tx, ty, tz) (x0, y0, z0)
               = (plate / 2 - s * (x1 - x0) / 2, plate / 2 - s * (y1 - y0) / 2, 0)"
proof -
  obtain s where s: "(if max (x1 - x0) (y1 - y0) > plate - 10
                      then np_div (plate - 10) (max (x1 - x0) (y1 - y0)) else Fin 1) = Fin s"
    using fit_scale [of "x1 - x0" "y1 - y0" "plate - 10"] assms(2,3,4) by auto
  have "calculate_build_plate_transform m plate =
          Inr (Fin s, Fin (plate / 2 - 1 / 2 * ((x1 - x0) * s) - x0 * s),
               Fin (plate / 2 - 1 / 2 * ((y1 - y0) * s) - y0 * s), Fin (0 - z0 * s))"
    using assms(1) s by (simp add: calculate_build_plate_transform_def Let_def np_mul_def)
  moreover have "apply_transform s (plate / 2 - 1 / 2 * ((x1 - x0) * s) - x0 * s,
                   plate / 2 - 1 / 2 * ((y1 - y0) * s) - y0 * s, 0 - z0 * s) (x0, y0, z0)
               = (plate / 2 - s * (x1 - x0) / 2, plate / 2 - s * (y1 - y0) / 2, 0)"
    by (simp add: field_simps)
  ultimately show ?thesis by blast
qed

lemma calculate_build_plate_transform_cube10:
  "calculate_build_plate_transform cube10 220 = Inr (Fin 1, Fin 105, Fin 105, Fin 0)"
  by (simp add: calculate_build_plate_transform_def cube10_def np_mul_def Let_def)

section \<open>Properties of the fallback analysis\<close>









text \<open>A feature set whose overhang entry is not a dict makes the fallback itself fail,
  and the agent raises \<open>RuntimeError\<close>.\<close>

lemma fallback_raises_on_malformed_features:
  "analyze_features no_json (Inr ''Sorry, I cannot help.'') [(''overhangs'', JNull)]
     = Inl RuntimeError"
  by (simp add: analyze_features_def parse_analysis_response_def no_json_def Let_def
      generate_fallback_analysis_def dict_get_def attr_get_def)

section \<open>Properties of the Elegoo project settings\<close>

subsection \<open>Dictionaries\<close>

lemma map_of_dict_set: "map_of (dict_set d k v) = (map_of d)(k \<mapsto> v)"
  by (simp add: dict_set_def update_conv')

lemma map_of_dict_update: "map_of (dict_update d other) = map_of d ++ map_of (rev other)"
proof (induction other arbitrary: d)
  case Nil
  then show ?case by (simp add: dict_update_def)
next
  case (Cons kv other)
  obtain k v where kv: "kv = (k, v)" by (cases kv)
  have "dict_update d (kv # other) = dict_update (dict_set d k v) other"
    by (simp add: dict_update_def kv)
  then have "map_of (dict_update d (kv # other)) = (map_of d)(k \<mapsto> v) ++ map_of (rev other)"
    using Cons.IH [of "dict_set d k v"] by (simp only: map_of_dict_set)
  also have "(map_of d)(k \<mapsto> v) = map_of d ++ [k \<mapsto> v]" by simp
  also have "map_of d ++ [k \<mapsto> v] ++ map_of (rev other)
             = map_of d ++ ([k \<mapsto> v] ++ map_of (rev other))" by (rule map_add_assoc [symmetric])
  also have "[k \<mapsto> v] ++ map_of (rev other) = map_of (rev (kv # other))"
    by (simp add: kv)
  finally show ?case .
qed

lemma distinct_dict_set: "distinct (map fst d) \<Longrightarrow> distinct (map fst (dict_set d k v))"
  by (simp add: dict_set_def distinct_update)

lemma distinct_dict_update:
  "distinct (map fst d) \<Longrightarrow> distinct (map fst (dict_update d other))"
proof (induction other arbitrary: d)
  case Nil
  then show ?case by (simp add: dict_update_def)
next
  case (Cons kv other)
  obtain k v where kv: "kv = (k, v)" by (cases kv)
  have "dict_update d (kv # other) = dict_update (dict_set d k v) other"
    by (simp add: dict_update_def kv)
  then show ?case using Cons.IH [OF distinct_dict_set [OF Cons.prems]] by simp
qed

lemma map_of_rev_distinct: "distinct (map fst xs) \<Longrightarrow> map_of (rev xs) = map_of xs"
proof (induction xs)
  case Nil
  then show ?case by simp
next
  case (Cons kv xs)
  obtain k v where kv: "kv = (k, v)" by (cases kv)
  from Cons.prems kv have notin: "k \<notin> fst ` set xs" and d: "distinct (map fst xs)" by auto
  then have "map_of xs k = None" by (simp add: map_of_eq_None_iff)
  then have "[k \<mapsto> v] ++ map_of xs = (map_of xs)(k \<mapsto> v)"
    by (auto simp: map_add_def fun_eq_iff split: option.splits)
  then show ?case using Cons.IH [OF d] by (simp add: kv)
qed

subsection \<open>The support keys\<close>

lemma distinct_ai_settings: "distinct (map fst (ai_settings repr profile material))"
  by (simp add: ai_settings_def)

lemma ai_settings_support_style:
  "map_of (ai_settings repr profile material) ''support_style'' = Some (JStr ''default'')"
  by (simp add: ai_settings_def)

lemma ai_settings_support_type:
  "map_of (ai_settings repr profile material) ''support_type''
     = Some (JStr (if is_tree repr profile then ''tree(auto)'' else ''normal(auto)''))"
  by (simp add: ai_settings_def)

lemma tree_settings_support_style:
  "map_of (rev (tree_settings repr profile)) ''support_style'' = None"
  "map_of (rev (tree_settings repr profile)) ''support_type'' = None"
  by (simp_all add: tree_settings_def)


text \<open>
  C10. Whatever the template, the profile and the material, the project settings have
  \<open>support_style = "default"\<close>, also when tree supports are selected; the selection
  shows only in \<open>support_type\<close>, which is \<open>"tree(auto)"\<close> when tree supports are
  selected and \<open>"normal(auto)"\<close> otherwise.
\<close>

theorem support_style_default:
  "map_of (generate_elegoo_project_settings repr defaults profile material) ''support_style''
     = Some (JStr ''default'')
   \<and> map_of (generate_elegoo_project_settings repr defaults profile material) ''support_type''
     = Some (JStr (if is_tree repr profile then ''tree(auto)'' else ''normal(auto)''))"
proof -
  let ?ai = "ai_settings repr profile material"
  let ?t = "tree_settings repr profile"
  have with_tree: "map_of (rev (dict_update ?ai ?t)) k = map_of ?ai k"
    if "map_of (rev ?t) k = None" for k
  proof -
    have "distinct (map fst (dict_update ?ai ?t))"
      by (rule distinct_dict_update [OF distinct_ai_settings])
    then have "map_of (rev (dict_update ?ai ?t)) = map_of (dict_update ?ai ?t)"
      by (rule map_of_rev_distinct)
    also have "\<dots> = map_of ?ai ++ map_of (rev ?t)" by (rule map_of_dict_update)
    finally show ?thesis using that by (simp add: map_add_def)
  qed
  have plain: "map_of (rev ?ai) k = map_of ?ai k" for k
    by (simp add: map_of_rev_distinct [OF distinct_ai_settings])
  have look: "map_of (generate_elegoo_project_settings repr defaults profile material) k
              = map_of ?ai k"
    if "map_of (rev ?t) k = None" and "map_of ?ai k \<noteq> None" for k
    using that with_tree [OF that(1)] plain [of k]
    by (auto simp: generate_elegoo_project_settings_def Let_def map_of_dict_update map_add_def
        split: option.splits)
  show ?thesis
    using look [of "''support_style''"] look [of "''support_type''"]
    by (simp add: tree_settings_support_style ai_settings_support_style
        ai_settings_support_type)
qed


theorem support_style_default_witness:
  "is_tree repr_stub profile_tree
   \<and> map_of (generate_elegoo_project_settings repr_stub template_defaults profile_tree
              ''Elegoo PLA'') ''support_style'' = Some (JStr ''default'')
   \<and> map_of (generate_elegoo_project_settings repr_stub template_defaults profile_tree
              ''Elegoo PLA'') ''support_type'' = Some (JStr ''tree(auto)'')"
proof -
  have "is_tree repr_stub profile_tree" by (simp add: is_tree_def profile_tree_def)
  then show ?thesis
    using support_style_default [of repr_stub template_defaults profile_tree "''Elegoo PLA''"]
    by simp
qed

section \<open>Properties of package assembly and profile generation\<close>

subsection \<open>What an assembly leaves behind\<close>

lemma write_file_cases:
  "write_file oc path fs =
     (case oc of
        Completed \<Rightarrow> (None, fs\<lparr>files := (files fs)(path \<mapsto> Written)\<rparr>)
      | Aborted e \<Rightarrow> (Some e, fs)
      | Interrupted e \<Rightarrow> (Some e, fs\<lparr>files := (files fs)(path \<mapsto> Partial)\<rparr>))"
  by (simp add: write_file_def)

lemma assemble_not_reaching:
  assumes "\<not> reaches_archive env plate"
  shows "\<exists>e. fst (assemble env out tmp plate fs) = Inl e"
    and "files (snd (assemble env out tmp plate fs)) = files fs"
  using assms
  by (auto simp: reaches_archive_def assemble_def Let_def split: option.splits sum.splits)

lemma assemble_reaching:
  assumes "reaches_archive env plate"
  shows "assemble env out tmp plate fs =
           (case write_file (archive env) out (fs\<lparr>dirs := insert tmp (dirs fs)\<rparr>) of
              (Some e, fs') \<Rightarrow> (Inl e, fs')
            | (None, fs') \<Rightarrow> (Inr out, fs'))"
  using assms
  by (auto simp: reaches_archive_def assemble_def Let_def split: option.splits sum.splits)

lemma cleanup_files: "files (cleanup env tmp fs) = files fs"
  by (simp add: cleanup_def split: option.splits)

lemma cleanup_removes: "temp_dir_removed env = None \<Longrightarrow> tmp \<notin> dirs (cleanup env tmp fs)"
  by (simp add: cleanup_def)

lemma generate_3mf_with_settings_unfold:
  "generate_3mf_with_settings env output_dir base plate fs =
     (fst (assemble env (path_join output_dir (base @ ''.3mf''))
             (path_join output_dir (''temp_'' @ base)) plate fs),
      cleanup env (path_join output_dir (''temp_'' @ base))
        (snd (assemble env (path_join output_dir (base @ ''.3mf''))
                (path_join output_dir (''temp_'' @ base)) plate fs)))"
  by (simp add: generate_3mf_with_settings_def Let_def split: prod.splits)

text \<open>
  C7, as amended. When package assembly fails before the archive is written (creating
  the directories, loading the model, generating the XML, writing the parts or the
  metadata) or because the archive cannot be opened, the files below the output
  directory are as before: nothing is written at the target path. When it fails while
  the archive is being written, the partially written archive stays at the target path.
  The temporary directory is gone after every exit, success or failure, on which its
  removal succeeds.
\<close>

theorem assembly_failure_effects:
  assumes "generate_3mf_with_settings env output_dir base plate fs = (res, fs')"
  shows "(\<not> reaches_archive env plate \<longrightarrow> (\<exists>e. res = Inl e) \<and> files fs' = files fs)
       \<and> (reaches_archive env plate \<and> archive env = Aborted e
            \<longrightarrow> res = Inl e \<and> files fs' = files fs)
       \<and> (reaches_archive env plate \<and> archive env = Interrupted e
            \<longrightarrow> res = Inl e
                \<and> files fs' = (files fs)(path_join output_dir (base @ ''.3mf'') \<mapsto> Partial))
       \<and> (temp_dir_removed env = None \<longrightarrow> path_join output_dir (''temp_'' @ base) \<notin> dirs fs')"
proof -
  let ?out = "path_join output_dir (base @ ''.3mf'')"
  let ?tmp = "path_join output_dir (''temp_'' @ base)"
  let ?a = "assemble env ?out ?tmp plate fs"
  from assms have res: "res = fst ?a" and fs': "fs' = cleanup env ?tmp (snd ?a)"
    by (simp_all add: generate_3mf_with_settings_unfold)
  have 1: "\<not> reaches_archive env plate \<longrightarrow> (\<exists>e. res = Inl e) \<and> files fs' = files fs"
    using assemble_not_reaching [of env plate ?out ?tmp fs]
    by (simp add: res fs' cleanup_files)
  have 2: "reaches_archive env plate \<and> archive env = Aborted e
            \<longrightarrow> res = Inl e \<and> files fs' = files fs"
    by (simp add: res fs' cleanup_files assemble_reaching write_file_cases)
  have 3: "reaches_archive env plate \<and> archive env = Interrupted e
            \<longrightarrow> res = Inl e \<and> files fs' = (files fs)(?out \<mapsto> Partial)"
    by (simp add: res fs' cleanup_files assemble_reaching write_file_cases)
  have 4: "temp_dir_removed env = None \<longrightarrow> ?tmp \<notin> dirs fs'"
    by (simp add: fs' cleanup_removes)
  from 1 2 3 4 show ?thesis by blast
qed

lemma load_fails_not_reaching: "\<not> reaches_archive load_fails 220"
  by (simp add: reaches_archive_def load_fails_def all_fine_def)

lemma archive_cut_off_reaching: "reaches_archive archive_cut_off 220"
  by (simp add: reaches_archive_def archive_cut_off_def all_fine_def cube10_placement)

lemma archive_refused_reaching: "reaches_archive archive_refused 220"
  by (simp add: reaches_archive_def archive_refused_def all_fine_def cube10_placement)

theorem assembly_failure_effects_witness:
  "(\<exists>e. fst (generate_3mf_with_settings load_fails ''out'' ''cube_1'' 220 empty_fs) = Inl e)
   \<and> files (snd (generate_3mf_with_settings load_fails ''out'' ''cube_1'' 220 empty_fs))
       = files empty_fs
   \<and> ''out/temp_cube_1''
       \<notin> dirs (snd (generate_3mf_with_settings load_fails ''out'' ''cube_1'' 220 empty_fs))
   \<and> fst (generate_3mf_with_settings archive_cut_off ''out'' ''cube_1'' 220 empty_fs)
       = Inl OSError
   \<and> files (snd (generate_3mf_with_settings archive_cut_off ''out'' ''cube_1'' 220 empty_fs))
       = (files empty_fs)(''out/cube_1.3mf'' \<mapsto> Partial)
   \<and> fst (generate_3mf_with_settings archive_refused ''out'' ''cube_1'' 220 empty_fs)
       = Inl OSError
   \<and> files (snd (generate_3mf_with_settings archive_refused ''out'' ''cube_1'' 220 empty_fs))
       = files empty_fs"
proof -
  let ?g1 = "generate_3mf_with_settings load_fails ''out'' ''cube_1'' 220 empty_fs"
  let ?g2 = "generate_3mf_with_settings archive_cut_off ''out'' ''cube_1'' 220 empty_fs"
  let ?g3 = "generate_3mf_with_settings archive_refused ''out'' ''cube_1'' 220 empty_fs"
  have r1: "temp_dir_removed load_fails = None" by (simp add: load_fails_def all_fine_def)
  have a2: "archive archive_cut_off = Interrupted OSError" by (simp add: archive_cut_off_def)
  have a3: "archive archive_refused = Aborted OSError" by (simp add: archive_refused_def)
  have g3: "?g3 = (fst ?g3, snd ?g3)" by simp
  have p: "path_join ''out'' (''temp_'' @ ''cube_1'') = ''out/temp_cube_1''"
          "path_join ''out'' (''cube_1'' @ ''.3mf'') = ''out/cube_1.3mf''"
    by (simp_all add: path_join_def)
  have g1: "?g1 = (fst ?g1, snd ?g1)" and g2: "?g2 = (fst ?g2, snd ?g2)" by simp_all
  show ?thesis
    using assembly_failure_effects [OF g1, of OSError]
          assembly_failure_effects [OF g2, of OSError]
          assembly_failure_effects [OF g3, of OSError]
          load_fails_not_reaching archive_cut_off_reaching archive_refused_reaching r1 a2 a3 p
    by simp
qed

text \<open>
  C7, as stated, fails when the archive write is interrupted: the call raises, and the
  file at the target path is the partially written archive.
\<close>

theorem partial_archive_counterexample:
  "fst (generate_3mf_with_settings archive_cut_off ''out'' ''cube_1'' 220 empty_fs) = Inl OSError
   \<and> files (snd (generate_3mf_with_settings archive_cut_off ''out'' ''cube_1'' 220 empty_fs))
       ''out/cube_1.3mf'' = Some Partial
   \<and> files empty_fs ''out/cube_1.3mf'' = None"
proof -
  have "generate_3mf_with_settings archive_cut_off ''out'' ''cube_1'' 220 empty_fs
          = (Inl OSError,
             cleanup archive_cut_off ''out/temp_cube_1''
               (empty_fs\<lparr>dirs := insert ''out/temp_cube_1'' (dirs empty_fs),
                         files := (files empty_fs)(''out/cube_1.3mf'' \<mapsto> Partial)\<rparr>))"
    by (simp add: generate_3mf_with_settings_unfold assemble_reaching
        archive_cut_off_reaching write_file_cases path_join_def)
       (simp add: archive_cut_off_def)
  then show ?thesis by (simp add: cleanup_files empty_fs_def)
qed

subsection \<open>Profile generation after a failed assembly\<close>






end
